theory Spec2Isabelle
  imports Complex_Main
begin

section \<open>Structural landscape analysis: data model\<close>

text \<open>
  The development embeds \<^verbatim>\<open>Structural_Landscape_Analysis_MDS.py\<close>. Python floats are read
  as real numbers (exact arithmetic, no rounding); the one non-number a pandas reduction
  can produce here, the NaN of a mean over no rows, is the value \<open>None\<close> of
  \<open>real option\<close>. Python exceptions are values: a class name.
\<close>

type_synonym exn = string

text \<open>
  \<^verbatim>\<open>pd.read_csv\<close> infers one dtype for each column. A column of identifiers is
  \<^verbatim>\<open>int64\<close> when every cell is an integer literal, and \<^verbatim>\<open>object\<close> when some cell is text:
  its cells then are strings, an empty cell being NaN (\<open>None\<close>). A value of such a column
  is a \<open>key\<close>; an integer never equals a string. (Identifier columns that pandas infers as
  \<^verbatim>\<open>float64\<close> or \<^verbatim>\<open>bool\<close> are not covered.)
\<close>

datatype key = Int_key int | Str_key "string option"

datatype id_column = Int64 "int list" | Object "string option list"

datatype dtype = Dtype_int64 | Dtype_object

definition keys_of :: "id_column \<Rightarrow> key list" where
  "keys_of c = (case c of Int64 ns \<Rightarrow> map Int_key ns | Object ss \<Rightarrow> map Str_key ss)"

definition dtype_of :: "id_column \<Rightarrow> dtype" where
  "dtype_of c = (case c of Int64 ns \<Rightarrow> Dtype_int64 | Object ss \<Rightarrow> Dtype_object)"

text \<open>
  A row of \<^verbatim>\<open>coords_df\<close> after the merge with the metadata: the two MDS coordinates and
  the metadata columns the script reads (the metadata file
  \<^verbatim>\<open>Must contain 'Sequence_ID', 'Lineage'\<close>, as the configuration block says). The
  lineage is the text of the cell: the one thing done with it is the comparison with a
  lineage name.
\<close>

record row =
  Dim1 :: real
  Dim2 :: real
  Sequence_ID :: key
  Lineage :: string

subsection \<open>The dispersion index\<close>

text \<open>\<^verbatim>\<open>Series.mean()\<close>: the sum over the count, NaN on an empty series.\<close>

definition series_mean :: "real list \<Rightarrow> real option" where
  "series_mean xs = (if xs = [] then None else Some (sum_list xs / real (length xs)))"

text \<open>
  \<^verbatim>\<open>
  def calculate_dispersion(coords_df, lineage_name):
      subset = coords_df[coords_df['Lineage'] == lineage_name]
      if subset.empty:
          return 0.0
      centroid = subset[['Dim1', 'Dim2']].mean()
      distances = np.sqrt(((subset[['Dim1', 'Dim2']] - centroid) ** 2).sum(axis=1))
      return distances.mean()
  \<close>
  The column-wise mean gives one value per column; a NaN centroid component would make
  every distance NaN, and so the result.
\<close>

definition calculate_dispersion :: "row list \<Rightarrow> string \<Rightarrow> real option" where
  "calculate_dispersion coords_df lineage_name =
     (let subset = filter (\<lambda>r. Lineage r = lineage_name) coords_df in
      if subset = [] then Some 0
      else
        (case (series_mean (map Dim1 subset), series_mean (map Dim2 subset)) of
           (Some c1, Some c2) \<Rightarrow>
             series_mean (map (\<lambda>r. sqrt ((Dim1 r - c1)\<^sup>2 + (Dim2 r - c2)\<^sup>2)) subset)
         | _ \<Rightarrow> None))"

subsection \<open>Inputs, libraries and effects of the script\<close>

text \<open>
  \<^verbatim>\<open>rmsd_df\<close>, the frame read with \<^verbatim>\<open>index_col=0\<close>: the row labels (the entity
  identifiers, a column with its dtype) and the numeric cells, row by row. The metadata
  frame is read for two columns, \<^verbatim>\<open>Sequence_ID\<close> and \<^verbatim>\<open>Lineage\<close>: its rows are pairs of
  the two, and the constructor is the dtype of the \<^verbatim>\<open>Sequence_ID\<close> column.
\<close>

record rmsd_df =
  index :: id_column
  cells :: "real list list"

datatype meta_df =
    Int64_rows "(int \<times> string) list"
  | Object_rows "(string option \<times> string) list"

definition meta_dtype :: "meta_df \<Rightarrow> dtype" where
  "meta_dtype md = (case md of Int64_rows rs \<Rightarrow> Dtype_int64 | Object_rows rs \<Rightarrow> Dtype_object)"

definition meta_rows :: "meta_df \<Rightarrow> (key \<times> string) list" where
  "meta_rows md =
     (case md of
        Int64_rows rs \<Rightarrow> map (\<lambda>(n, lin). (Int_key n, lin)) rs
      | Object_rows rs \<Rightarrow> map (\<lambda>(s, lin). (Str_key s, lin)) rs)"

text \<open>The keyword arguments of the \<^verbatim>\<open>MDS(...)\<close> constructor call.\<close>

record mds_params =
  n_components :: nat
  dissimilarity :: string
  random_state :: "nat option"
  n_init :: nat

text \<open>
  scikit-learn, seaborn and matplotlib are not part of the repository: they are
  parameters. \<open>fit_transform\<close> is \<^verbatim>\<open>MDS(**params).fit_transform(rmsd_df)\<close>: it sees the
  constructor arguments and the frame, and raises or returns an array (a list of
  coordinate rows). \<open>render\<close> is the plotting block that ends in
  \<^verbatim>\<open>plt.savefig(path)\<close>: it raises or writes the file.
\<close>

record libs =
  fit_transform :: "mds_params \<Rightarrow> rmsd_df \<Rightarrow> exn + real list list"
  render :: "string \<Rightarrow> row list \<Rightarrow> exn option"

text \<open>
  What the script finds when it runs: for each path, what \<^verbatim>\<open>pd.read_csv\<close> does there. It
  raises (\<^verbatim>\<open>FileNotFoundError\<close> when there is no such file, \<^verbatim>\<open>EmptyDataError\<close> on a file of
  zero bytes, \<^verbatim>\<open>NotADirectoryError\<close>, \<^verbatim>\<open>ParserError\<close>, ...) or returns the parsed frame.
\<close>

record env =
  read_csv_indexed :: "string \<Rightarrow> exn + rmsd_df"
  read_csv :: "string \<Rightarrow> exn + meta_df"

text \<open>
  Everything a run emits, in order: the lines it prints, the call it makes into the MDS
  library, the file it writes. A dispersion line
  \<^verbatim>\<open>print(f"Dispersion Index (Extended): {di_extended:.2f}")\<close> is kept as its label and
  the value before rounding.
\<close>

datatype event =
    Print string
  | Print_DI string "real option"
  | MDS_fit mds_params rmsd_df
  | Savefig string

definition INPUT_RMSD_MATRIX :: string where
  "INPUT_RMSD_MATRIX = ''data/RMSD_Matrix_All_vs_All.csv''"

definition METADATA_FILE :: string where
  "METADATA_FILE = ''data/Pacifastin_Metadata.csv''"

definition OUTPUT_DIR :: string where
  "OUTPUT_DIR = ''results/structural_landscape/''"

definition figure_path :: string where
  "figure_path = OUTPUT_DIR @ ''/Figure4_MDS_Landscape.pdf''"

definition mds_config :: mds_params where
  "mds_config = \<lparr>n_components = 2, dissimilarity = ''precomputed'',
                  random_state = Some 42, n_init = 4\<rparr>"

text \<open>
  The body of the \<^verbatim>\<open>try\<close> block: both reads, the matrix first. The first exception
  raised leaves the body, and the metadata is not read when the read of the matrix raises.
\<close>

definition load_inputs :: "env \<Rightarrow> exn + (rmsd_df \<times> meta_df)" where
  "load_inputs e =
     (case read_csv_indexed e INPUT_RMSD_MATRIX of
        Inl ex \<Rightarrow> Inl ex
      | Inr rmsd \<Rightarrow>
          (case read_csv e METADATA_FILE of
             Inl ex \<Rightarrow> Inl ex
           | Inr metadata \<Rightarrow> Inr (rmsd, metadata)))"

text \<open>
  \<^verbatim>\<open>pd.DataFrame(coords, columns=['Dim1', 'Dim2'], index=rmsd_df.index)\<close>: pandas raises
  \<^verbatim>\<open>ValueError\<close> unless the array has one row per index label and two columns. The frame
  keeps the index, with its dtype.
\<close>

record coords_frame =
  labels :: id_column
  points :: "(real \<times> real) list"

definition DataFrame_coords :: "real list list \<Rightarrow> id_column \<Rightarrow> exn + coords_frame" where
  "DataFrame_coords coords idx =
     (if length coords = length (keys_of idx) \<and> list_all (\<lambda>c. length c = 2) coords
      then Inr \<lparr>labels = idx, points = map (\<lambda>c. (c ! 0, c ! 1)) coords\<rparr>
      else Inl ''ValueError'')"

text \<open>
  \<^verbatim>\<open>coords_df.merge(metadata, left_index=True, right_on='Sequence_ID')\<close>. pandas first
  compares the dtypes of the two key columns: an \<^verbatim>\<open>int64\<close> column against an \<^verbatim>\<open>object\<close>
  column of text is a \<^verbatim>\<open>ValueError\<close> (\<^verbatim>\<open>You are trying to merge on int64 and object
  columns\<close>), unless one of the two frames has no rows. Then it joins: an inner join (the
  default \<^verbatim>\<open>how\<close>), one row for every pair of a coordinate row and a metadata row with
  the same key, in the order of the left keys.
\<close>

definition keys_clash :: "id_column \<Rightarrow> meta_df \<Rightarrow> bool" where
  "keys_clash left_keys metadata =
     (dtype_of left_keys \<noteq> meta_dtype metadata \<and>
      keys_of left_keys \<noteq> [] \<and> meta_rows metadata \<noteq> [])"

definition inner_join :: "(key \<times> real \<times> real) list \<Rightarrow> (key \<times> string) list \<Rightarrow> row list" where
  "inner_join left right =
     concat (map (\<lambda>(i, x, y).
        map (\<lambda>(sid, lin). \<lparr>Dim1 = x, Dim2 = y, Sequence_ID = sid, Lineage = lin\<rparr>)
            (filter (\<lambda>(sid, lin). sid = i) right)) left)"

definition merge_on_Sequence_ID :: "coords_frame \<Rightarrow> meta_df \<Rightarrow> exn + row list" where
  "merge_on_Sequence_ID coords_df metadata =
     (if keys_clash (labels coords_df) metadata then Inl ''ValueError''
      else Inr (inner_join (zip (keys_of (labels coords_df)) (points coords_df))
                           (meta_rows metadata)))"

text \<open>
  \<^verbatim>\<open>run_mds_analysis()\<close>: the events of the run and how it ends, \<open>None\<close> for a normal
  return (the function returns \<^verbatim>\<open>None\<close> on every path), \<open>Some ex\<close> for an exception that
  leaves the function. The \<^verbatim>\<open>except\<close> clause catches \<^verbatim>\<open>FileNotFoundError\<close> and nothing
  else.
\<close>

definition run_mds_analysis :: "libs \<Rightarrow> env \<Rightarrow> event list \<times> exn option" where
  "run_mds_analysis lib e =
     (let log0 = [Print ''Loading data...''] in
      case load_inputs e of
        Inl ex \<Rightarrow>
          (if ex = ''FileNotFoundError''
           then (log0 @ [Print (''Error: Input files not found. Please check ''
                                @ INPUT_RMSD_MATRIX @ '' and '' @ METADATA_FILE)], None)
           else (log0, Some ex))
      | Inr (rmsd, metadata) \<Rightarrow>
          (let log1 = log0 @ [Print ''Running MDS projection...'', MDS_fit mds_config rmsd] in
           case fit_transform lib mds_config rmsd of
             Inl ex \<Rightarrow> (log1, Some ex)
           | Inr coords \<Rightarrow>
               (case DataFrame_coords coords (index rmsd) of
                  Inl ex \<Rightarrow> (log1, Some ex)
                | Inr frame \<Rightarrow>
                    (case merge_on_Sequence_ID frame metadata of
                       Inl ex \<Rightarrow> (log1, Some ex)
                     | Inr coords_df \<Rightarrow>
                         (let di_extended = calculate_dispersion coords_df ''Extended-loop'';
                              di_compact = calculate_dispersion coords_df ''Compact-loop'';
                              log2 = log1 @
                                [Print_DI ''Dispersion Index (Extended): '' di_extended,
                                 Print_DI ''Dispersion Index (Compact): '' di_compact]
                          in case render lib figure_path coords_df of
                               Some ex \<Rightarrow> (log2, Some ex)
                             | None \<Rightarrow>
                                 (log2 @ [Savefig figure_path,
                                          Print (''Plot saved to '' @ OUTPUT_DIR)],
                                  None))))))"

subsection \<open>The dispersion index in the words of the specification\<close>

text \<open>
  The specification speaks of points and vectors: the members of a category are the points
  carrying its label, the centroid is the arithmetic mean of the member coordinates (the
  vector sum scaled by one over the count), and the dispersion is the arithmetic mean of
  the Euclidean distances from the members to the centroid.
\<close>

type_synonym point = "real \<times> real"

definition members :: "row list \<Rightarrow> string \<Rightarrow> point list" where
  "members cfg label = [(Dim1 r, Dim2 r). r \<leftarrow> cfg, Lineage r = label]"

definition vec_add :: "point \<Rightarrow> point \<Rightarrow> point" where
  "vec_add p q = (fst p + fst q, snd p + snd q)"

definition vec_scale :: "real \<Rightarrow> point \<Rightarrow> point" where
  "vec_scale a p = (a * fst p, a * snd p)"

definition euclid :: "point \<Rightarrow> point \<Rightarrow> real" where
  "euclid p q = sqrt ((fst p - fst q)\<^sup>2 + (snd p - snd q)\<^sup>2)"

definition spec_centroid :: "point list \<Rightarrow> point" where
  "spec_centroid ps = vec_scale (1 / real (length ps)) (foldr vec_add ps (0, 0))"

definition spec_dispersion :: "point list \<Rightarrow> real" where
  "spec_dispersion ps = (\<Sum>p\<leftarrow>ps. euclid p (spec_centroid ps)) / real (length ps)"

subsection \<open>The input contract in the words of the specification\<close>








subsection \<open>Scaling a configuration\<close>

definition scale_row :: "real \<Rightarrow> row \<Rightarrow> row" where
  "scale_row k r = r\<lparr>Dim1 := k * Dim1 r, Dim2 := k * Dim2 r\<rparr>"

subsection \<open>Concrete inputs\<close>

text \<open>
  Three embedded entities: two of the extended lineage, two units apart, and one of the
  compact lineage.
\<close>

definition example_cfg :: "row list" where
  "example_cfg =
     [\<lparr>Dim1 = 0, Dim2 = 0, Sequence_ID = Str_key (Some ''P1''), Lineage = ''Extended-loop''\<rparr>,
      \<lparr>Dim1 = 3, Dim2 = 4, Sequence_ID = Str_key (Some ''P2''), Lineage = ''Compact-loop''\<rparr>,
      \<lparr>Dim1 = 0, Dim2 = 2, Sequence_ID = Str_key (Some ''P3''), Lineage = ''Extended-loop''\<rparr>]"

text \<open>
  A library whose fit returns a given array whatever it is asked, and whose plotting
  succeeds.
\<close>

definition returning :: "real list list \<Rightarrow> libs" where
  "returning coords =
     \<lparr>fit_transform = (\<lambda>p m. Inr coords), render = (\<lambda>path rows. None)\<rparr>"

text \<open>
  An environment in which the two configured paths behave as given, and no other path
  exists.
\<close>

definition env_of :: "exn + rmsd_df \<Rightarrow> exn + meta_df \<Rightarrow> env" where
  "env_of m md =
     \<lparr>read_csv_indexed = (\<lambda>p. if p = INPUT_RMSD_MATRIX then m else Inl ''FileNotFoundError''),
      read_csv = (\<lambda>p. if p = METADATA_FILE then md else Inl ''FileNotFoundError'')\<rparr>"

text \<open>
  Four points on a line (the scenario of the specification); the same matrix with a
  non-zero self-distance and a negative entry; a valid matrix of three entities; and the
  four points again under integer identifiers.
\<close>

definition line_matrix :: rmsd_df where
  "line_matrix = \<lparr>index = Object [Some ''A'', Some ''B'', Some ''C'', Some ''D''],
                   cells = [[0, 1, 2, 3], [1, 0, 1, 2], [2, 1, 0, 1], [3, 2, 1, 0]]\<rparr>"



definition numbered_matrix :: rmsd_df where
  "numbered_matrix = \<lparr>index = Int64 [1, 2, 3, 4],
                       cells = [[0, 1, 2, 3], [1, 0, 1, 2], [2, 1, 0, 1], [3, 2, 1, 0]]\<rparr>"

definition line_metadata :: meta_df where
  "line_metadata =
     Object_rows [(Some ''A'', ''Extended-loop''), (Some ''B'', ''Extended-loop''),
                  (Some ''C'', ''Compact-loop''), (Some ''D'', ''Compact-loop'')]"

definition numbered_metadata :: meta_df where
  "numbered_metadata =
     Int64_rows [(1, ''Extended-loop''), (2, ''Extended-loop''),
                 (3, ''Compact-loop''), (4, ''Compact-loop'')]"

text \<open>
  The same tables with one more entry, for an identifier the matrix does not have. In the
  numbered table the entry is text, so pandas reads the whole column as text.
\<close>

definition ghost_metadata :: meta_df where
  "ghost_metadata =
     Object_rows [(Some ''A'', ''Extended-loop''), (Some ''GHOST'', ''Extended-loop''),
                  (Some ''B'', ''Extended-loop''), (Some ''C'', ''Compact-loop''),
                  (Some ''D'', ''Compact-loop'')]"

definition numbered_ghost_metadata :: meta_df where
  "numbered_ghost_metadata =
     Object_rows [(Some ''1'', ''Extended-loop''), (Some ''GHOST'', ''Extended-loop''),
                  (Some ''2'', ''Extended-loop''), (Some ''3'', ''Compact-loop''),
                  (Some ''4'', ''Compact-loop'')]"

section \<open>Properties of the dispersion index\<close>

lemma members_filter:
  "members cfg label = map (\<lambda>r. (Dim1 r, Dim2 r)) (filter (\<lambda>r. Lineage r = label) cfg)"
  unfolding members_def by (induction cfg) simp_all

lemma foldr_vec_add:
  "foldr vec_add ps (0, 0) = (sum_list (map fst ps), sum_list (map snd ps))"
  by (induction ps) (simp_all add: vec_add_def)

lemma spec_centroid_columns:
  "spec_centroid (map (\<lambda>r. (Dim1 r, Dim2 r)) rs) =
     (sum_list (map Dim1 rs) / real (length rs), sum_list (map Dim2 rs) / real (length rs))"
  by (simp add: spec_centroid_def vec_scale_def foldr_vec_add comp_def)

lemma calculate_dispersion_nonempty:
  assumes "filter (\<lambda>r. Lineage r = l) cfg \<noteq> []"
  shows "calculate_dispersion cfg l = Some (spec_dispersion (members cfg l))"
proof -
  let ?s = "filter (\<lambda>r. Lineage r = l) cfg"
  have "spec_dispersion (members cfg l) =
      sum_list (map (\<lambda>r. sqrt ((Dim1 r - sum_list (map Dim1 ?s) / real (length ?s))\<^sup>2
                              + (Dim2 r - sum_list (map Dim2 ?s) / real (length ?s))\<^sup>2)) ?s)
        / real (length ?s)"
    unfolding spec_dispersion_def members_filter spec_centroid_columns
    by (simp add: euclid_def comp_def)
  with assms show ?thesis
    by (simp add: calculate_dispersion_def series_mean_def Let_def)
qed

lemma example_cfg_extended: "members example_cfg ''Extended-loop'' = [(0, 0), (0, 2)]"
  by (simp add: members_def example_cfg_def)

text \<open>
  Claim C1. For every configuration and every category label that has a member in it, the
  value \<open>calculate_dispersion\<close> returns is a number (not NaN), and it is the arithmetic
  mean of the Euclidean distances from the member points to the category centroid, the
  centroid being the arithmetic mean of the member coordinates. (A label with no member has
  no distances to average; what the code returns there is the subject of claim C2.)
\<close>

theorem dispersion_is_mean_distance_to_centroid:
  assumes "members cfg l \<noteq> []"
  shows "calculate_dispersion cfg l = Some (spec_dispersion (members cfg l))"
  using assms calculate_dispersion_nonempty [of l cfg] by (simp add: members_filter)

theorem dispersion_is_mean_distance_to_centroid_witness:
  "members example_cfg ''Extended-loop'' \<noteq> [] \<and>
   calculate_dispersion example_cfg ''Extended-loop'' = Some 1"
proof -
  have h: "members example_cfg ''Extended-loop'' \<noteq> []"
    by (simp add: example_cfg_extended)
  have "spec_dispersion [(0, 0), (0, 2)] = 1"
    by (simp add: spec_dispersion_def spec_centroid_def vec_scale_def vec_add_def euclid_def)
  with dispersion_is_mean_distance_to_centroid [OF h] h show ?thesis
    by (simp add: example_cfg_extended)
qed

text \<open>
  Claim C2. For every category with exactly one member row, and for every category with
  no member row, \<open>calculate_dispersion\<close> returns the number 0: no exception (the function
  has no raising path) and no NaN (the result is \<open>Some 0\<close>, never \<open>None\<close>).
\<close>

theorem dispersion_singleton_or_empty_is_zero:
  assumes "length (members cfg l) \<le> 1"
  shows "calculate_dispersion cfg l = Some 0"
proof (cases "filter (\<lambda>r. Lineage r = l) cfg")
  case Nil
  then show ?thesis by (simp add: calculate_dispersion_def)
next
  case (Cons r rs)
  with assms have "rs = []" by (simp add: members_filter)
  with Cons show ?thesis
    by (simp add: calculate_dispersion_def series_mean_def)
qed

theorem dispersion_singleton_or_empty_is_zero_witness:
  "length (members example_cfg ''Compact-loop'') = 1 \<and>
   calculate_dispersion example_cfg ''Compact-loop'' = Some 0 \<and>
   length (members example_cfg ''Other'') = 0 \<and>
   calculate_dispersion example_cfg ''Other'' = Some 0"
proof -
  have a: "length (members example_cfg ''Compact-loop'') = 1"
    by (simp add: members_def example_cfg_def)
  have b: "length (members example_cfg ''Other'') = 0"
    by (simp add: members_def example_cfg_def)
  from a have a': "length (members example_cfg ''Compact-loop'') \<le> 1"
    by simp
  from b have b': "length (members example_cfg ''Other'') \<le> 1"
    by simp
  show ?thesis
    using a b dispersion_singleton_or_empty_is_zero [OF a']
      dispersion_singleton_or_empty_is_zero [OF b'] by simp
qed

text \<open>
  Scaling every coordinate by a factor \<open>k \<ge> 0\<close> scales the dispersion of every category
  by \<open>k\<close>.
\<close>

lemma sqrt_scale:
  fixes k :: real
  assumes "0 \<le> k"
  shows "sqrt ((k * a - k * c)\<^sup>2 + (k * b - k * d)\<^sup>2) = k * sqrt ((a - c)\<^sup>2 + (b - d)\<^sup>2)"
proof -
  have "(k * a - k * c)\<^sup>2 + (k * b - k * d)\<^sup>2 = k\<^sup>2 * ((a - c)\<^sup>2 + (b - d)\<^sup>2)"
    by (simp add: power2_eq_square algebra_simps)
  with assms show ?thesis by (simp add: real_sqrt_mult)
qed

lemma filter_scale:
  "filter (\<lambda>r. Lineage r = l) (map (scale_row k) cfg) =
     map (scale_row k) (filter (\<lambda>r. Lineage r = l) cfg)"
  by (induction cfg) (simp_all add: scale_row_def)

lemma calculate_dispersion_scale:
  assumes "0 \<le> k"
  shows "calculate_dispersion (map (scale_row k) cfg) l =
         map_option (\<lambda>d. k * d) (calculate_dispersion cfg l)"
proof -
  let ?s = "filter (\<lambda>r. Lineage r = l) cfg"
  have m1: "sum_list (map (Dim1 \<circ> scale_row k) ?s) = k * sum_list (map Dim1 ?s)"
    by (simp add: scale_row_def comp_def sum_list_const_mult)
  have m2: "sum_list (map (Dim2 \<circ> scale_row k) ?s) = k * sum_list (map Dim2 ?s)"
    by (simp add: scale_row_def comp_def sum_list_const_mult)
  have d: "(\<Sum>r\<leftarrow>?s. sqrt ((k * Dim1 r - k * c1 / n)\<^sup>2 + (k * Dim2 r - k * c2 / n)\<^sup>2)) =
           k * (\<Sum>r\<leftarrow>?s. sqrt ((Dim1 r - c1 / n)\<^sup>2 + (Dim2 r - c2 / n)\<^sup>2))" for c1 c2 n
    using sqrt_scale [OF assms, of _ "c1 / n" _ "c2 / n"]
    by (simp add: sum_list_const_mult)
  show ?thesis
    using m1 m2
    by (simp add: calculate_dispersion_def filter_scale series_mean_def Let_def comp_def
        scale_row_def d)
qed

section \<open>Properties of the run\<close>

subsection \<open>Steps of the run\<close>


text \<open>
  The frame of step 3, when it is built, has the index of the matrix and one point per
  identifier; an array of any other shape is a \<^verbatim>\<open>ValueError\<close>.
\<close>

lemma DataFrame_coords_labels:
  "DataFrame_coords coords idx = Inr frame \<Longrightarrow> labels frame = idx"
  by (auto simp: DataFrame_coords_def split: if_splits)

lemma DataFrame_coords_length:
  "DataFrame_coords coords idx = Inr frame \<Longrightarrow> length (points frame) = length (keys_of idx)"
  by (auto simp: DataFrame_coords_def split: if_splits)

text \<open>
  The inner join drops a metadata row whose key labels no coordinate row, wherever it
  stands in the table.
\<close>

lemma inner_join_unmatched:
  assumes "fst r \<notin> fst ` set left"
  shows "inner_join left (xs @ r # ys) = inner_join left (xs @ ys)"
  using assms
proof (induction left)
  case Nil
  show ?case by (simp add: inner_join_def)
next
  case (Cons t left)
  obtain i x y where t: "t = (i, x, y)" by (cases t)
  obtain sid lin where r: "r = (sid, lin)" by (cases r)
  from Cons.prems t r have "sid \<noteq> i" by auto
  moreover from Cons
  have "inner_join left (xs @ r # ys) = inner_join left (xs @ ys)"
    by simp
  ultimately show ?case
    by (simp add: inner_join_def t r)
qed

lemma fst_set_zip_subset: "fst ` set (zip ks ps) \<subseteq> set ks"
  by (auto dest: set_zip_leftD)

lemma merge_unmatched_object:
  assumes "labels frame = Object ids" and "fst r \<notin> set ids"
  shows "merge_on_Sequence_ID frame (Object_rows (xs @ r # ys)) =
         merge_on_Sequence_ID frame (Object_rows (xs @ ys))"
proof -
  obtain s lin where r: "r = (s, lin)" by (cases r)
  from assms(2) r have "Str_key s \<notin> set (map Str_key ids)" by auto
  with fst_set_zip_subset [of "map Str_key ids" "points frame"]
  have "fst (Str_key s, lin) \<notin> fst ` set (zip (map Str_key ids) (points frame))" by auto
  from inner_join_unmatched [OF this]
  show ?thesis
    using assms(1)
    by (simp add: merge_on_Sequence_ID_def keys_clash_def dtype_of_def meta_dtype_def
        meta_rows_def keys_of_def r)
qed

lemma merge_unmatched_int64:
  assumes "labels frame = Int64 ns" and "fst q \<notin> set ns"
  shows "merge_on_Sequence_ID frame (Int64_rows (us @ q # vs)) =
         merge_on_Sequence_ID frame (Int64_rows (us @ vs))"
proof -
  obtain n lin where q: "q = (n, lin)" by (cases q)
  from assms(2) q have "Int_key n \<notin> set (map Int_key ns)" by auto
  with fst_set_zip_subset [of "map Int_key ns" "points frame"]
  have "fst (Int_key n, lin) \<notin> fst ` set (zip (map Int_key ns) (points frame))" by auto
  from inner_join_unmatched [OF this]
  show ?thesis
    using assms(1)
    by (simp add: merge_on_Sequence_ID_def keys_clash_def dtype_of_def meta_dtype_def
        meta_rows_def keys_of_def q)
qed

subsection \<open>Missing input files\<close>

text \<open>
  Claim C10, as stated, fails. The metadata file is missing and the matrix file has zero
  bytes: the read of the matrix, which comes first, raises \<^verbatim>\<open>EmptyDataError\<close>; the handler
  does not catch it, and the exception leaves the function after the first printed line.
\<close>

theorem unparsable_matrix_escapes_handler:
  "read_csv (env_of (Inl ''EmptyDataError'') (Inl ''FileNotFoundError'')) METADATA_FILE
     = Inl ''FileNotFoundError'' \<and>
   run_mds_analysis (returning []) (env_of (Inl ''EmptyDataError'') (Inl ''FileNotFoundError''))
     = ([Print ''Loading data...''], Some ''EmptyDataError'')"
  by (simp add: run_mds_analysis_def load_inputs_def env_of_def)

text \<open>
  Claim C10, amended. When the read of the RMSD matrix raises \<^verbatim>\<open>FileNotFoundError\<close>, or
  the matrix is read and the read of the metadata raises \<^verbatim>\<open>FileNotFoundError\<close>, the run
  consists of exactly two printed lines, the loading message and the error message naming
  both paths, and returns normally: no exception leaves the function, the MDS library is
  not called, and no file is written.
\<close>

theorem file_not_found_returns_quietly:
  assumes "read_csv_indexed e INPUT_RMSD_MATRIX = Inl ''FileNotFoundError'' \<or>
           (\<exists>m. read_csv_indexed e INPUT_RMSD_MATRIX = Inr m) \<and>
           read_csv e METADATA_FILE = Inl ''FileNotFoundError''"
  shows "run_mds_analysis lib e =
     ([Print ''Loading data...'',
       Print ''Error: Input files not found. Please check data/RMSD_Matrix_All_vs_All.csv and data/Pacifastin_Metadata.csv''],
      None)"
proof -
  from assms have "load_inputs e = Inl ''FileNotFoundError''"
    by (auto simp: load_inputs_def)
  then show ?thesis
    by (simp add: run_mds_analysis_def INPUT_RMSD_MATRIX_def METADATA_FILE_def)
qed

theorem file_not_found_returns_quietly_witness:
  "read_csv_indexed (env_of (Inr line_matrix) (Inl ''FileNotFoundError'')) INPUT_RMSD_MATRIX
     = Inr line_matrix \<and>
   read_csv (env_of (Inr line_matrix) (Inl ''FileNotFoundError'')) METADATA_FILE
     = Inl ''FileNotFoundError'' \<and>
   run_mds_analysis (returning []) (env_of (Inr line_matrix) (Inl ''FileNotFoundError'')) =
     ([Print ''Loading data...'',
       Print ''Error: Input files not found. Please check data/RMSD_Matrix_All_vs_All.csv and data/Pacifastin_Metadata.csv''],
      None) \<and>
   read_csv_indexed (env_of (Inl ''FileNotFoundError'') (Inr line_metadata)) INPUT_RMSD_MATRIX
     = Inl ''FileNotFoundError'' \<and>
   run_mds_analysis (returning []) (env_of (Inl ''FileNotFoundError'') (Inr line_metadata)) =
     ([Print ''Loading data...'',
       Print ''Error: Input files not found. Please check data/RMSD_Matrix_All_vs_All.csv and data/Pacifastin_Metadata.csv''],
      None)"
proof -
  have a: "read_csv_indexed (env_of (Inr line_matrix) (Inl ''FileNotFoundError''))
             INPUT_RMSD_MATRIX = Inr line_matrix"
    by (simp add: env_of_def)
  have b: "read_csv (env_of (Inr line_matrix) (Inl ''FileNotFoundError'')) METADATA_FILE
             = Inl ''FileNotFoundError''"
    by (simp add: env_of_def)
  have c: "read_csv_indexed (env_of (Inl ''FileNotFoundError'') (Inr line_metadata))
             INPUT_RMSD_MATRIX = Inl ''FileNotFoundError''"
    by (simp add: env_of_def)
  from a b
  have ab: "read_csv_indexed (env_of (Inr line_matrix) (Inl ''FileNotFoundError''))
              INPUT_RMSD_MATRIX = Inl ''FileNotFoundError'' \<or>
            (\<exists>m. read_csv_indexed (env_of (Inr line_matrix) (Inl ''FileNotFoundError''))
                   INPUT_RMSD_MATRIX = Inr m) \<and>
            read_csv (env_of (Inr line_matrix) (Inl ''FileNotFoundError'')) METADATA_FILE
              = Inl ''FileNotFoundError''"
    by blast
  show ?thesis
    using a b c
      file_not_found_returns_quietly [OF ab, of "returning []"]
      file_not_found_returns_quietly [OF disjI1, OF c, of "returning []"]
    by simp
qed

subsection \<open>No validation in front of the embedding\<close>




subsection \<open>No lower bound on the number of entities\<close>




subsection \<open>Metadata entries without an embedded entity\<close>

text \<open>
  Claim C5, as stated, fails twice. With text identifiers, the table \<open>ghost_metadata\<close>
  has an entry for \<open>GHOST\<close>, which the matrix does not have: the run is not aborted, and
  what it emits is the complete list below, with no warning about the entry among it.
  With integer identifiers, the same entry makes the identifier column of the table text:
  the merge raises \<^verbatim>\<open>ValueError\<close> and the run ends there, while the table without the
  entry runs to the end.
\<close>

theorem unmatched_entry_silent_or_fatal:
  "Str_key (Some ''GHOST'') \<in> fst ` set (meta_rows ghost_metadata) \<and>
   Str_key (Some ''GHOST'') \<notin> set (keys_of (index line_matrix)) \<and>
   run_mds_analysis (returning [[0, 0], [2, 0], [0, 5], [4, 5]])
       (env_of (Inr line_matrix) (Inr ghost_metadata)) =
     ([Print ''Loading data...'', Print ''Running MDS projection...'',
       MDS_fit mds_config line_matrix,
       Print_DI ''Dispersion Index (Extended): '' (Some 1),
       Print_DI ''Dispersion Index (Compact): '' (Some 2),
       Savefig ''results/structural_landscape//Figure4_MDS_Landscape.pdf'',
       Print ''Plot saved to results/structural_landscape/''], None) \<and>
   Str_key (Some ''GHOST'') \<in> fst ` set (meta_rows numbered_ghost_metadata) \<and>
   Str_key (Some ''GHOST'') \<notin> set (keys_of (index numbered_matrix)) \<and>
   run_mds_analysis (returning [[0, 0], [2, 0], [0, 5], [4, 5]])
       (env_of (Inr numbered_matrix) (Inr numbered_ghost_metadata)) =
     ([Print ''Loading data...'', Print ''Running MDS projection...'',
       MDS_fit mds_config numbered_matrix], Some ''ValueError'') \<and>
   run_mds_analysis (returning [[0, 0], [2, 0], [0, 5], [4, 5]])
       (env_of (Inr numbered_matrix) (Inr numbered_metadata)) =
     ([Print ''Loading data...'', Print ''Running MDS projection...'',
       MDS_fit mds_config numbered_matrix,
       Print_DI ''Dispersion Index (Extended): '' (Some 1),
       Print_DI ''Dispersion Index (Compact): '' (Some 2),
       Savefig ''results/structural_landscape//Figure4_MDS_Landscape.pdf'',
       Print ''Plot saved to results/structural_landscape/''], None)"
proof -
  have "Str_key (Some ''GHOST'') \<in> fst ` set (meta_rows ghost_metadata)"
    by (simp add: ghost_metadata_def meta_rows_def)
  moreover have "Str_key (Some ''GHOST'') \<notin> set (keys_of (index line_matrix))"
    by (simp add: line_matrix_def keys_of_def)
  moreover have "run_mds_analysis (returning [[0, 0], [2, 0], [0, 5], [4, 5]])
       (env_of (Inr line_matrix) (Inr ghost_metadata)) =
     ([Print ''Loading data...'', Print ''Running MDS projection...'',
       MDS_fit mds_config line_matrix,
       Print_DI ''Dispersion Index (Extended): '' (Some 1),
       Print_DI ''Dispersion Index (Compact): '' (Some 2),
       Savefig ''results/structural_landscape//Figure4_MDS_Landscape.pdf'',
       Print ''Plot saved to results/structural_landscape/''], None)"
    by (simp add: run_mds_analysis_def load_inputs_def env_of_def returning_def
        DataFrame_coords_def merge_on_Sequence_ID_def keys_clash_def inner_join_def
        keys_of_def dtype_of_def meta_dtype_def meta_rows_def line_matrix_def ghost_metadata_def
        calculate_dispersion_def series_mean_def figure_path_def OUTPUT_DIR_def)
  moreover have "Str_key (Some ''GHOST'') \<in> fst ` set (meta_rows numbered_ghost_metadata)"
    by (simp add: numbered_ghost_metadata_def meta_rows_def)
  moreover have "Str_key (Some ''GHOST'') \<notin> set (keys_of (index numbered_matrix))"
    by (auto simp: numbered_matrix_def keys_of_def)
  moreover have "run_mds_analysis (returning [[0, 0], [2, 0], [0, 5], [4, 5]])
       (env_of (Inr numbered_matrix) (Inr numbered_ghost_metadata)) =
     ([Print ''Loading data...'', Print ''Running MDS projection...'',
       MDS_fit mds_config numbered_matrix], Some ''ValueError'')"
    by (simp add: run_mds_analysis_def load_inputs_def env_of_def returning_def
        DataFrame_coords_def merge_on_Sequence_ID_def keys_clash_def inner_join_def
        keys_of_def dtype_of_def meta_dtype_def meta_rows_def numbered_matrix_def numbered_ghost_metadata_def
        calculate_dispersion_def series_mean_def figure_path_def OUTPUT_DIR_def)
  moreover have "run_mds_analysis (returning [[0, 0], [2, 0], [0, 5], [4, 5]])
       (env_of (Inr numbered_matrix) (Inr numbered_metadata)) =
     ([Print ''Loading data...'', Print ''Running MDS projection...'',
       MDS_fit mds_config numbered_matrix,
       Print_DI ''Dispersion Index (Extended): '' (Some 1),
       Print_DI ''Dispersion Index (Compact): '' (Some 2),
       Savefig ''results/structural_landscape//Figure4_MDS_Landscape.pdf'',
       Print ''Plot saved to results/structural_landscape/''], None)"
    by (simp add: run_mds_analysis_def load_inputs_def env_of_def returning_def
        DataFrame_coords_def merge_on_Sequence_ID_def keys_clash_def inner_join_def
        keys_of_def dtype_of_def meta_dtype_def meta_rows_def numbered_matrix_def numbered_metadata_def
        calculate_dispersion_def series_mean_def figure_path_def OUTPUT_DIR_def)
  ultimately show ?thesis by simp
qed

text \<open>
  Claim C5, amended. When the identifiers of the matrix and of the label table are of
  one dtype, both text or both integer, and stay so with the entry, a table entry whose
  identifier is not among the identifiers of the matrix is skipped silently: for every
  library, the run on the table with the entry is the run on the table without it, event
  for event (no warning, no error, the same dispersion indices for every category, the
  same figure) and with the same ending.
\<close>

theorem unmatched_entry_skipped_silently:
  assumes "read_csv_indexed e INPUT_RMSD_MATRIX = Inr m"
  shows "(\<forall>ids. index m = Object ids \<and> fst r \<notin> set ids \<longrightarrow>
            run_mds_analysis lib
              (e\<lparr>read_csv := (read_csv e)(METADATA_FILE := Inr (Object_rows (xs @ r # ys)))\<rparr>) =
            run_mds_analysis lib
              (e\<lparr>read_csv := (read_csv e)(METADATA_FILE := Inr (Object_rows (xs @ ys)))\<rparr>)) \<and>
         (\<forall>ns. index m = Int64 ns \<and> fst q \<notin> set ns \<longrightarrow>
            run_mds_analysis lib
              (e\<lparr>read_csv := (read_csv e)(METADATA_FILE := Inr (Int64_rows (us @ q # vs)))\<rparr>) =
            run_mds_analysis lib
              (e\<lparr>read_csv := (read_csv e)(METADATA_FILE := Inr (Int64_rows (us @ vs)))\<rparr>))"
proof -
  have obj: "run_mds_analysis lib
              (e\<lparr>read_csv := (read_csv e)(METADATA_FILE := Inr (Object_rows (xs @ r # ys)))\<rparr>) =
            run_mds_analysis lib
              (e\<lparr>read_csv := (read_csv e)(METADATA_FILE := Inr (Object_rows (xs @ ys)))\<rparr>)"
    if "index m = Object ids" and "fst r \<notin> set ids" for ids
  proof -
    have "merge_on_Sequence_ID frame (Object_rows (xs @ r # ys)) =
          merge_on_Sequence_ID frame (Object_rows (xs @ ys))"
      if "DataFrame_coords coords (index m) = Inr frame" for coords frame
      using DataFrame_coords_labels [OF that] \<open>index m = Object ids\<close> \<open>fst r \<notin> set ids\<close>
      by (simp add: merge_unmatched_object)
    then show ?thesis
      using assms
      by (simp add: run_mds_analysis_def load_inputs_def Let_def split: sum.splits)
  qed
  have int: "run_mds_analysis lib
              (e\<lparr>read_csv := (read_csv e)(METADATA_FILE := Inr (Int64_rows (us @ q # vs)))\<rparr>) =
            run_mds_analysis lib
              (e\<lparr>read_csv := (read_csv e)(METADATA_FILE := Inr (Int64_rows (us @ vs)))\<rparr>)"
    if "index m = Int64 ns" and "fst q \<notin> set ns" for ns
  proof -
    have "merge_on_Sequence_ID frame (Int64_rows (us @ q # vs)) =
          merge_on_Sequence_ID frame (Int64_rows (us @ vs))"
      if "DataFrame_coords coords (index m) = Inr frame" for coords frame
      using DataFrame_coords_labels [OF that] \<open>index m = Int64 ns\<close> \<open>fst q \<notin> set ns\<close>
      by (simp add: merge_unmatched_int64)
    then show ?thesis
      using assms
      by (simp add: run_mds_analysis_def load_inputs_def Let_def split: sum.splits)
  qed
  from obj int show ?thesis by blast
qed

theorem unmatched_entry_skipped_silently_witness:
  "read_csv_indexed (env_of (Inr line_matrix) (Inr line_metadata)) INPUT_RMSD_MATRIX
     = Inr line_matrix \<and>
   index line_matrix = Object [Some ''A'', Some ''B'', Some ''C'', Some ''D''] \<and>
   Some ''GHOST'' \<notin> set [Some ''A'', Some ''B'', Some ''C'', Some ''D''] \<and>
   run_mds_analysis (returning [[0, 0], [2, 0], [0, 5], [4, 5]])
     ((env_of (Inr line_matrix) (Inr line_metadata))
        \<lparr>read_csv := (read_csv (env_of (Inr line_matrix) (Inr line_metadata)))
           (METADATA_FILE := Inr (Object_rows
              ([(Some ''A'', ''Extended-loop'')] @ (Some ''GHOST'', ''Extended-loop'') #
               [(Some ''B'', ''Extended-loop''), (Some ''C'', ''Compact-loop''),
                (Some ''D'', ''Compact-loop'')])))\<rparr>) =
   run_mds_analysis (returning [[0, 0], [2, 0], [0, 5], [4, 5]])
     ((env_of (Inr line_matrix) (Inr line_metadata))
        \<lparr>read_csv := (read_csv (env_of (Inr line_matrix) (Inr line_metadata)))
           (METADATA_FILE := Inr (Object_rows
              ([(Some ''A'', ''Extended-loop'')] @
               [(Some ''B'', ''Extended-loop''), (Some ''C'', ''Compact-loop''),
                (Some ''D'', ''Compact-loop'')])))\<rparr>) \<and>
   read_csv_indexed (env_of (Inr numbered_matrix) (Inr numbered_metadata)) INPUT_RMSD_MATRIX
     = Inr numbered_matrix \<and>
   index numbered_matrix = Int64 [1, 2, 3, 4] \<and>
   (7::int) \<notin> set [1, 2, 3, 4] \<and>
   run_mds_analysis (returning [[0, 0], [2, 0], [0, 5], [4, 5]])
     ((env_of (Inr numbered_matrix) (Inr numbered_metadata))
        \<lparr>read_csv := (read_csv (env_of (Inr numbered_matrix) (Inr numbered_metadata)))
           (METADATA_FILE := Inr (Int64_rows
              ([(1, ''Extended-loop'')] @ (7, ''Extended-loop'') #
               [(2, ''Extended-loop''), (3, ''Compact-loop''), (4, ''Compact-loop'')])))\<rparr>) =
   run_mds_analysis (returning [[0, 0], [2, 0], [0, 5], [4, 5]])
     ((env_of (Inr numbered_matrix) (Inr numbered_metadata))
        \<lparr>read_csv := (read_csv (env_of (Inr numbered_matrix) (Inr numbered_metadata)))
           (METADATA_FILE := Inr (Int64_rows
              ([(1, ''Extended-loop'')] @
               [(2, ''Extended-loop''), (3, ''Compact-loop''), (4, ''Compact-loop'')])))\<rparr>)"
proof -
  have a: "read_csv_indexed (env_of (Inr line_matrix) (Inr line_metadata)) INPUT_RMSD_MATRIX
             = Inr line_matrix"
    by (simp add: env_of_def)
  have b: "index line_matrix = Object [Some ''A'', Some ''B'', Some ''C'', Some ''D'']"
    by (simp add: line_matrix_def)
  have c: "fst (Some ''GHOST'', ''Extended-loop'')
             \<notin> set [Some ''A'', Some ''B'', Some ''C'', Some ''D'']"
    by simp
  have a': "read_csv_indexed (env_of (Inr numbered_matrix) (Inr numbered_metadata))
              INPUT_RMSD_MATRIX = Inr numbered_matrix"
    by (simp add: env_of_def)
  have b': "index numbered_matrix = Int64 [1, 2, 3, 4]"
    by (simp add: numbered_matrix_def)
  have c': "fst (7::int, ''Extended-loop'') \<notin> set [1, 2, 3, 4]"
    by simp
  from unmatched_entry_skipped_silently [OF a] b c
  have 1: "run_mds_analysis (returning [[0, 0], [2, 0], [0, 5], [4, 5]])
     ((env_of (Inr line_matrix) (Inr line_metadata))
        \<lparr>read_csv := (read_csv (env_of (Inr line_matrix) (Inr line_metadata)))
           (METADATA_FILE := Inr (Object_rows
              ([(Some ''A'', ''Extended-loop'')] @ (Some ''GHOST'', ''Extended-loop'') #
               [(Some ''B'', ''Extended-loop''), (Some ''C'', ''Compact-loop''),
                (Some ''D'', ''Compact-loop'')])))\<rparr>) =
   run_mds_analysis (returning [[0, 0], [2, 0], [0, 5], [4, 5]])
     ((env_of (Inr line_matrix) (Inr line_metadata))
        \<lparr>read_csv := (read_csv (env_of (Inr line_matrix) (Inr line_metadata)))
           (METADATA_FILE := Inr (Object_rows
              ([(Some ''A'', ''Extended-loop'')] @
               [(Some ''B'', ''Extended-loop''), (Some ''C'', ''Compact-loop''),
                (Some ''D'', ''Compact-loop'')])))\<rparr>)"
    by blast
  from unmatched_entry_skipped_silently [OF a'] b' c'
  have 2: "run_mds_analysis (returning [[0, 0], [2, 0], [0, 5], [4, 5]])
     ((env_of (Inr numbered_matrix) (Inr numbered_metadata))
        \<lparr>read_csv := (read_csv (env_of (Inr numbered_matrix) (Inr numbered_metadata)))
           (METADATA_FILE := Inr (Int64_rows
              ([(1, ''Extended-loop'')] @ (7, ''Extended-loop'') #
               [(2, ''Extended-loop''), (3, ''Compact-loop''), (4, ''Compact-loop'')])))\<rparr>) =
   run_mds_analysis (returning [[0, 0], [2, 0], [0, 5], [4, 5]])
     ((env_of (Inr numbered_matrix) (Inr numbered_metadata))
        \<lparr>read_csv := (read_csv (env_of (Inr numbered_matrix) (Inr numbered_metadata)))
           (METADATA_FILE := Inr (Int64_rows
              ([(1, ''Extended-loop'')] @
               [(2, ''Extended-loop''), (3, ''Compact-loop''), (4, ''Compact-loop'')])))\<rparr>)"
    by blast
  from a b a' b' 1 2 show ?thesis by simp
qed

end
